theory Spec2Isabelle
  imports Main "HOL-Library.Word"
begin

section \<open>Nested call dispatch of ExtVM (libethereum/ExtVM.cpp)\<close>

text \<open>
  A shallow embedding of \<^verbatim>\<open>ExtVM.cpp\<close>: the stack budget constants of its anonymous
  namespace, the two placement functions \<^verbatim>\<open>goOnOffloadedStack\<close> and \<^verbatim>\<open>go\<close>, and the
  two dispatchers \<^verbatim>\<open>ExtVM::call\<close> and \<^verbatim>\<open>ExtVM::create\<close>.  The class \<^verbatim>\<open>Executive\<close>
  (the execution frame), the ledger \<^verbatim>\<open>State\<close> and the interpreter are declared in other
  files; the dispatchers only call their operations, so the frame enters the model as a
  record of operations that every theorem quantifies over.
\<close>

subsection \<open>Build configuration and machine integers\<close>

text \<open>
  The constants are selected by the preprocessor: \<^verbatim>\<open>NDEBUG\<close> for the per-call stack
  requirement, \<^verbatim>\<open>__linux\<close> / \<^verbatim>\<open>_WIN32\<close> / anything else for the default stack size.
  \<^verbatim>\<open>size_t\<close> is taken as a 64-bit word, \<^verbatim>\<open>unsigned\<close> as a 32-bit word; every constant
  below fits in 32 bits.
\<close>

type_synonym size_t = "64 word"
type_synonym unsigned = "32 word"

datatype platform = Linux | Win32 | OtherOS

datatype build = Build (ndebug: bool) (os: platform)

definition c_depthLimit :: unsigned where
  "c_depthLimit = 1024"

definition c_singleExecutionStackSize :: "build \<Rightarrow> size_t" where
  "c_singleExecutionStackSize b = (if ndebug b then 10 * 1024 else 16 * 1024)"

definition c_defaultStackSize :: "build \<Rightarrow> size_t" where
  "c_defaultStackSize b =
     (case os b of
        Linux \<Rightarrow> 8 * 1024 * 1024
      | Win32 \<Rightarrow> 16 * 1024 * 1024
      | OtherOS \<Rightarrow> 512 * 1024)"

definition c_entryOverhead :: size_t where
  "c_entryOverhead = 128 * 1024"

text \<open>
  The quotient is computed in \<^verbatim>\<open>size_t\<close> and then narrowed to \<^verbatim>\<open>unsigned\<close>.
\<close>

definition c_offloadPoint :: "build \<Rightarrow> unsigned" where
  "c_offloadPoint b =
     ucast ((c_defaultStackSize b - c_entryOverhead) div c_singleExecutionStackSize b)"

text \<open>
  The argument of \<^verbatim>\<open>attrs.set_stack_size\<close> in \<^verbatim>\<open>goOnOffloadedStack\<close>: the difference is
  taken in \<^verbatim>\<open>unsigned\<close> (it wraps when the offload point lies above the depth limit),
  widened to \<^verbatim>\<open>size_t\<close> and multiplied there.
\<close>

definition offloadedStackSize :: "build \<Rightarrow> size_t" where
  "offloadedStackSize b =
     ucast (c_depthLimit - c_offloadPoint b) * c_singleExecutionStackSize b"

subsection \<open>Data model\<close>

type_synonym address = "160 word"
type_synonym u256 = "256 word"
type_synonym bytes = "8 word list"

text \<open>
  The ledger \<^verbatim>\<open>m_s\<close> as this layer sees it: balances (read by the debug output of
  \<^verbatim>\<open>ExtVM::call\<close>) and nonces (written by \<^verbatim>\<open>noteSending\<close>).
\<close>

record State =
  balance :: "address \<Rightarrow> u256"
  nonce :: "address \<Rightarrow> u256"

text \<open>
  Modelled from the spec: \<^verbatim>\<open>State::noteSending\<close> is defined in State.cpp, which is not among
  the sources.  The spec's ledger interface gives it as \<^verbatim>\<open>incrementNonce(address)\<close>, and
  the comment at its call in \<^verbatim>\<open>ExtVM::create\<close> reads "Increment associated nonce for
  sender"; the nonce is a \<^verbatim>\<open>u256\<close>.
\<close>

definition noteSending :: "address \<Rightarrow> State \<Rightarrow> State" where
  "noteSending a s = s\<lparr>nonce := (nonce s)(a := nonce s a + 1)\<rparr>"

text \<open>
  Modelled from the spec: \<^verbatim>\<open>SubState\<close> is declared in libevm, which is not among the
  sources.  The spec lists accumulated logs, pending self-destructs and a refund counter.
\<close>

record SubState =
  logs :: "bytes list"
  selfDestructs :: "address list"
  refunds :: u256

text \<open>The environment information and the seal engine are passed through untouched.\<close>

datatype EnvInfo = EnvInfo nat
datatype SealEngineFace = SealEngine nat

text \<open>The tracing callback: the dispatcher only hands it on.\<close>

datatype OnOpFunc = OnOp nat

text \<open>
  Modelled from the spec: \<^verbatim>\<open>CallParameters\<close> is declared in libevm, which is not among the
  sources.  \<^verbatim>\<open>ExtVM::call\<close> reads \<^verbatim>\<open>senderAddress\<close>, \<^verbatim>\<open>receiveAddress\<close> and
  \<^verbatim>\<open>onOp\<close> and writes \<^verbatim>\<open>gas\<close>; the other fields follow the spec's list.
\<close>

record CallParameters =
  senderAddress :: address
  codeAddress :: address
  receiveAddress :: address
  valueTransfer :: u256
  gas :: u256
  data :: bytes
  onOp :: OnOpFunc

text \<open>
  The members of \<^verbatim>\<open>ExtVM\<close> (and of its base \<^verbatim>\<open>ExtVMFace\<close>) that the two dispatchers use.
  \<^verbatim>\<open>m_s\<close> is a reference in the source; here the dispatcher returns the updated record.
\<close>

record ExtVM =
  m_s :: State
  sub :: SubState
  depth :: unsigned
  myAddress :: address
  gasPrice :: u256
  origin :: address
  envInfo :: EnvInfo
  m_sealEngine :: SealEngineFace

subsection \<open>Faults, execution contexts and the frame interface\<close>

text \<open>
  C++ exceptions are values: \<^verbatim>\<open>boost::thread\<close>'s constructor throws
  \<^verbatim>\<open>thread_resource_error\<close> when the thread cannot be started; anything else that reaches
  the dispatcher was thrown by an operation of the frame and carries a payload of type \<open>'x\<close>.
  A raised fault ends the dispatcher without a result; what the ledger holds after a
  fault has propagated is not modelled.
\<close>

datatype 'x exn = thread_resource_error | thrown 'x

text \<open>
  The native stack a run loop executes on: the caller's own, or the stack of a thread
  created with the given size.
\<close>

datatype exec_context = CallingThread | OffloadedThread size_t

text \<open>
  Whether the platform starts a thread with the requested stack size.
\<close>

type_synonym host = "size_t \<Rightarrow> bool"

text \<open>
  The operations of \<^verbatim>\<open>Executive\<close> that ExtVM.cpp calls.  Executive.cpp is not among the
  sources, so the operations are a parameter.  A frame holds a reference to the ledger;
  the operations that may write it take and return the ledger.  \<^verbatim>\<open>call\<close> and \<^verbatim>\<open>create\<close>
  return \<^verbatim>\<open>true\<close> when the frame is already complete and needs no run.  The thread a
  C++ call executes on is implicit in the source; \<open>e_go\<close> takes it as its first
  argument.
\<close>

record ('e, 'x) Executive =
  Executive_new :: "State \<Rightarrow> EnvInfo \<Rightarrow> SealEngineFace \<Rightarrow> unsigned \<Rightarrow> 'e"
  e_call :: "'e \<Rightarrow> CallParameters \<Rightarrow> u256 \<Rightarrow> address \<Rightarrow> State \<Rightarrow> 'x exn + (bool \<times> 'e \<times> State)"
  e_create :: "'e \<Rightarrow> address \<Rightarrow> u256 \<Rightarrow> u256 \<Rightarrow> u256 \<Rightarrow> bytes \<Rightarrow> address \<Rightarrow> State
                \<Rightarrow> 'x exn + (bool \<times> 'e \<times> State)"
  e_go :: "exec_context \<Rightarrow> 'e \<Rightarrow> OnOpFunc \<Rightarrow> State \<Rightarrow> 'x exn + ('e \<times> State)"
  e_accrueSubState :: "'e \<Rightarrow> SubState \<Rightarrow> SubState"
  e_gas :: "'e \<Rightarrow> u256"
  e_excepted :: "'e \<Rightarrow> bool"
  e_newAddress :: "'e \<Rightarrow> address"

subsection \<open>Stack placement\<close>

text \<open>
  \<^verbatim>\<open>goOnOffloadedStack\<close>: a thread with the computed stack size is created and joined at
  once.  Inside it every exception of \<^verbatim>\<open>_e.go\<close> is caught into \<^verbatim>\<open>exception\<close>; after the
  join it is rethrown.
\<close>

definition goOnOffloadedStack ::
  "build \<Rightarrow> host \<Rightarrow> ('e, 'x) Executive \<Rightarrow> 'e \<Rightarrow> OnOpFunc \<Rightarrow> State \<Rightarrow> 'x exn + ('e \<times> State)" where
  "goOnOffloadedStack b h X e onOp' s =
     (let attrs = offloadedStackSize b in
      if \<not> h attrs then Inl thread_resource_error
      else (case e_go X (OffloadedThread attrs) e onOp' s of
              Inl exception \<Rightarrow> Inl exception
            | Inr r \<Rightarrow> Inr r))"

definition go ::
  "build \<Rightarrow> host \<Rightarrow> unsigned \<Rightarrow> ('e, 'x) Executive \<Rightarrow> 'e \<Rightarrow> OnOpFunc \<Rightarrow> State
     \<Rightarrow> 'x exn + ('e \<times> State)" where
  "go b h depth' X e onOp' s =
     (if depth' = c_offloadPoint b
      then goOnOffloadedStack b h X e onOp' s
      else e_go X CallingThread e onOp' s)"

text \<open>
  The run that the spec compares a relocated run with ("an unrelocated run"): the frame's
  run loop called directly, on the caller's stack.
\<close>

definition unrelocatedRun ::
  "('e, 'x) Executive \<Rightarrow> 'e \<Rightarrow> OnOpFunc \<Rightarrow> State \<Rightarrow> 'x exn + ('e \<times> State)" where
  "unrelocatedRun X e onOp' s = e_go X CallingThread e onOp' s"

subsection \<open>The dispatchers\<close>

text \<open>
  \<^verbatim>\<open>ExtVM::call\<close>.  The result holds the returned boolean, the \<^verbatim>\<open>ExtVM\<close> with the ledger
  and \<^verbatim>\<open>sub\<close> as the call leaves them, the parameters with \<^verbatim>\<open>gas\<close> written back, and
  the local frame \<^verbatim>\<open>e\<close> as it is when the function returns (parameter names drop
  the leading underscore of the source).  The two \<^verbatim>\<open>cdebug\<close> lines
  only read balances.
\<close>

definition ExtVM_call ::
  "build \<Rightarrow> host \<Rightarrow> ('e, 'x) Executive \<Rightarrow> ExtVM \<Rightarrow> CallParameters
     \<Rightarrow> 'x exn + (bool \<times> ExtVM \<times> CallParameters \<times> 'e)" where
  "ExtVM_call b h X ext p =
     (let e = Executive_new X (m_s ext) (envInfo ext) (m_sealEngine ext) (depth ext + 1) in
      case e_call X e p (gasPrice ext) (origin ext) (m_s ext) of
        Inl x \<Rightarrow> Inl x
      | Inr (done, e, s) \<Rightarrow>
          (case (if \<not> done
                 then (case go b h (depth ext) X e (onOp p) s of
                         Inl x \<Rightarrow> Inl x
                       | Inr (e, s) \<Rightarrow> Inr (e, s, e_accrueSubState X e (sub ext)))
                 else Inr (e, s, sub ext)) of
             Inl x \<Rightarrow> Inl x
           | Inr (e, s, sub') \<Rightarrow>
               Inr (\<not> e_excepted X e, ext\<lparr>m_s := s, sub := sub'\<rparr>, p\<lparr>gas := e_gas X e\<rparr>, e)))"

text \<open>
  \<^verbatim>\<open>ExtVM::create\<close>.  The result holds the returned address, the updated \<^verbatim>\<open>ExtVM\<close>, the
  value left in \<^verbatim>\<open>io_gas\<close> and the local frame \<^verbatim>\<open>e\<close> at the return.
\<close>

definition ExtVM_create ::
  "build \<Rightarrow> host \<Rightarrow> ('e, 'x) Executive \<Rightarrow> ExtVM \<Rightarrow> u256 \<Rightarrow> u256 \<Rightarrow> bytes \<Rightarrow> OnOpFunc
     \<Rightarrow> 'x exn + (address \<times> ExtVM \<times> u256 \<times> 'e)" where
  "ExtVM_create b h X ext endowment io_gas code onOp' =
     (let s0 = noteSending (myAddress ext) (m_s ext);
          e = Executive_new X s0 (envInfo ext) (m_sealEngine ext) (depth ext + 1) in
      case e_create X e (myAddress ext) endowment (gasPrice ext) io_gas code (origin ext) s0 of
        Inl x \<Rightarrow> Inl x
      | Inr (done, e, s) \<Rightarrow>
          (case (if \<not> done
                 then (case go b h (depth ext) X e onOp' s of
                         Inl x \<Rightarrow> Inl x
                       | Inr (e, s) \<Rightarrow> Inr (e, s, e_accrueSubState X e (sub ext)))
                 else Inr (e, s, sub ext)) of
             Inl x \<Rightarrow> Inl x
           | Inr (e, s, sub') \<Rightarrow>
               Inr (e_newAddress X e, ext\<lparr>m_s := s, sub := sub'\<rparr>, e_gas X e, e)))"

text \<open>
  Shorthand for the first two steps of the dispatchers: the frame constructed one level
  below the dispatcher, and the begin operation called on it with the dispatcher's own
  members.  \<^verbatim>\<open>ExtVM::call\<close> begins on the ledger as it is, \<^verbatim>\<open>ExtVM::create\<close> on the
  ledger that \<^verbatim>\<open>noteSending\<close> has left.
\<close>

abbreviation childFrame :: "('e, 'x) Executive \<Rightarrow> ExtVM \<Rightarrow> State \<Rightarrow> 'e" where
  "childFrame X ext s \<equiv> Executive_new X s (envInfo ext) (m_sealEngine ext) (depth ext + 1)"

abbreviation beginCall ::
  "('e, 'x) Executive \<Rightarrow> ExtVM \<Rightarrow> CallParameters \<Rightarrow> 'x exn + (bool \<times> 'e \<times> State)" where
  "beginCall X ext p \<equiv>
     e_call X (childFrame X ext (m_s ext)) p (gasPrice ext) (origin ext) (m_s ext)"

abbreviation beginCreate ::
  "('e, 'x) Executive \<Rightarrow> ExtVM \<Rightarrow> State \<Rightarrow> u256 \<Rightarrow> u256 \<Rightarrow> bytes
     \<Rightarrow> 'x exn + (bool \<times> 'e \<times> State)" where
  "beginCreate X ext s endowment io_gas code \<equiv>
     e_create X (childFrame X ext s) (myAddress ext) endowment (gasPrice ext) io_gas code
       (origin ext) s"

subsection \<open>Call chains\<close>

text \<open>
  Modelled from the spec: a call chain.  The interpreter and Executive.cpp are not among
  the sources; by the spec a frame dispatched from depth \<open>d\<close> is constructed at depth
  \<open>d + 1\<close> and issues its own sub-calls from there, so the \<open>n\<close> nested dispatches of
  one chain that starts at depth \<open>d\<close> reach \<^verbatim>\<open>go\<close> with the depths \<open>d, d + 1, ...\<close>.
\<close>

fun chain :: "unsigned \<Rightarrow> nat \<Rightarrow> unsigned list" where
  "chain d 0 = []"
| "chain d (Suc n) = d # chain (d + 1) n"

subsection \<open>The execution frame of the spec\<close>

text \<open>
  Modelled from the spec: the merge of a child's SubState into its parent's
  (\<^verbatim>\<open>SubState::operator+=\<close>, declared in libevm, not among the sources).
\<close>

definition emptySubState :: SubState where
  "emptySubState = \<lparr>logs = [], selfDestructs = [], refunds = 0\<rparr>"

definition accrue :: "SubState \<Rightarrow> SubState \<Rightarrow> SubState" where
  "accrue parent child =
     \<lparr>logs = logs parent @ logs child,
      selfDestructs = selfDestructs parent @ selfDestructs child,
      refunds = refunds parent + refunds child\<rparr>"

text \<open>
  Modelled from the spec: the value transfer of a call (State.cpp is not among the
  sources): the sender's balance decreases and the receiver's increases by the amount.
\<close>

definition transferBalance :: "address \<Rightarrow> address \<Rightarrow> u256 \<Rightarrow> State \<Rightarrow> State" where
  "transferBalance from to v s =
     (let b1 = (balance s)(from := balance s from - v)
      in s\<lparr>balance := b1(to := b1 to + v)\<rparr>)"

text \<open>
  Modelled from the spec: the ExecutionFrame of section 4.2 (Executive.cpp and the
  interpreter are not among the sources).  The frame keeps its depth, its remaining gas,
  its terminal condition, its accumulated SubState, the address it creates, the ledger
  to roll back to, and the context its run loop executed on.
\<close>

record Frame =
  f_depth :: unsigned
  f_gas :: u256
  f_excepted :: bool
  f_sub :: SubState
  f_newAddress :: address
  f_revertTo :: State
  f_ranOn :: "exec_context option"

text \<open>
  Modelled from the spec: the externally supplied interpreter, reduced to what this layer
  observes of one run: whether there is code to run at all, whether the run raises a
  fault (the spec's "any fault raised while running inside a relocated execution
  context"), whether it halts exceptionally, the gas it leaves, the SubState it
  accumulates, and the address a creation assigns.
\<close>

record 'x script =
  needsRun :: bool
  raises :: "'x exn option"
  exceptionalHalt :: bool
  gasLeft :: u256
  effects :: SubState
  created :: address

text \<open>
  Modelled from the spec: the frame operations.  Construction checks the depth; a frame
  above the depth limit is exceptional and its begin operations complete at once without
  side effects.  Otherwise begin transfers the value and reports whether a run is needed.
  The run loop halts normally or exceptionally (then the ledger is rolled back to where
  the frame began, a creation yields the zero address, and the accumulated SubState is
  discarded: section 3, "discarded entirely on exceptional completion") or raises.  The
  merge adds the accumulated SubState of a frame that completed without exception to the
  parent's, and nothing otherwise (section 3, "merged into the parent's SubState only
  when the child frame completes without exception").
\<close>

definition scriptedFrame :: "'x script \<Rightarrow> (Frame, 'x) Executive" where
  "scriptedFrame sc =
     \<lparr>Executive_new = (\<lambda>s env se d.
         \<lparr>f_depth = d, f_gas = 0, f_excepted = (c_depthLimit < d), f_sub = emptySubState,
          f_newAddress = 0, f_revertTo = s, f_ranOn = None\<rparr>),
      e_call = (\<lambda>e p gp org s.
         if f_excepted e then Inr (True, e, s)
         else Inr (\<not> needsRun sc, e\<lparr>f_gas := gas p, f_revertTo := s\<rparr>,
                   transferBalance (senderAddress p) (receiveAddress p) (valueTransfer p) s)),
      e_create = (\<lambda>e sender endowment gp g code org s.
         if f_excepted e then Inr (True, e, s)
         else Inr (\<not> needsRun sc, e\<lparr>f_gas := g, f_newAddress := created sc, f_revertTo := s\<rparr>,
                   transferBalance sender (created sc) endowment s)),
      e_go = (\<lambda>c e onOp' s.
         case raises sc of
           Some x \<Rightarrow> Inl x
         | None \<Rightarrow>
             if exceptionalHalt sc
             then Inr (e\<lparr>f_ranOn := Some c, f_excepted := True, f_gas := gasLeft sc,
                         f_sub := emptySubState, f_newAddress := 0\<rparr>, f_revertTo e)
             else Inr (e\<lparr>f_ranOn := Some c, f_gas := gasLeft sc, f_sub := effects sc\<rparr>, s)),
      e_accrueSubState = (\<lambda>e parent.
         if f_excepted e then parent else accrue parent (f_sub e)),
      e_gas = f_gas,
      e_excepted = f_excepted,
      e_newAddress = f_newAddress\<rparr>"

text \<open>
  Modelled from the spec: the depth check of frame construction (section 4.1: the depth
  of the new frame must not exceed the depth limit; "checked by frame construction;
  violation yields an exceptional frame with no executed side effects").  Executive.cpp
  is not among the sources; this is the property of the frame operations that the spec
  states.
\<close>

definition depth_checked :: "('e, 'x) Executive \<Rightarrow> bool" where
  "depth_checked X \<longleftrightarrow>
     (\<forall>s env se d. c_depthLimit < d \<longrightarrow>
        e_excepted X (Executive_new X s env se d) \<and>
        (\<forall>p gp org s'.
           e_call X (Executive_new X s env se d) p gp org s'
             = Inr (True, Executive_new X s env se d, s')) \<and>
        (\<forall>snd en gp g code org s'.
           e_create X (Executive_new X s env se d) snd en gp g code org s'
             = Inr (True, Executive_new X s env se d, s')))"



subsection \<open>A sample dispatch\<close>

text \<open>
  The call traced in the comment above \<^verbatim>\<open>ExtVM::call\<close>: sender, receiver, origin, the
  two balances before the call, the value and the call gas.
\<close>

definition sampleSender :: address where
  "sampleSender = 0xfbc128067a2fe13c11bbc6cc55f29aa1f27630da"

definition sampleReceiver :: address where
  "sampleReceiver = 0xa748fac76b1d857e2f77484a0f816463e8b56edc"

definition sampleLedger :: State where
  "sampleLedger =
     \<lparr>balance = (\<lambda>a. if a = sampleSender then 0x29a2241af62c0002
                      else if a = sampleReceiver then 0x4440781269739936 else 0),
      nonce = (\<lambda>a. if a = sampleSender then 7 else 0)\<rparr>"

definition sampleExtVM :: "unsigned \<Rightarrow> ExtVM" where
  "sampleExtVM d =
     \<lparr>m_s = sampleLedger, sub = emptySubState, depth = d, myAddress = sampleSender,
      gasPrice = 0x5555555555555555, origin = 0x17580b766f7453525ca4c6a88b01b50570ea088c,
      envInfo = EnvInfo 0, m_sealEngine = SealEngine 0\<rparr>"

definition sampleParams :: CallParameters where
  "sampleParams =
     \<lparr>senderAddress = sampleSender, codeAddress = sampleReceiver,
      receiveAddress = sampleReceiver, valueTransfer = 0x6f05b59d3b20000, gas = 0x8fc,
      data = [], onOp = OnOp 0\<rparr>"

text \<open>
  Four scripts: a run that halts normally, one that halts exceptionally, one that raises,
  and a plain transfer that needs no run.
\<close>

definition sampleEffects :: SubState where
  "sampleEffects = \<lparr>logs = [[1, 2, 3]], selfDestructs = [], refunds = 15000\<rparr>"

definition normalRun :: "nat script" where
  "normalRun =
     \<lparr>needsRun = True, raises = None, exceptionalHalt = False, gasLeft = 0x100,
      effects = sampleEffects, created = 0xc0de\<rparr>"

definition exceptionalRun :: "nat script" where
  "exceptionalRun =
     \<lparr>needsRun = True, raises = None, exceptionalHalt = True, gasLeft = 0,
      effects = sampleEffects, created = 0xc0de\<rparr>"

definition raisingRun :: "nat script" where
  "raisingRun =
     \<lparr>needsRun = True, raises = Some (thrown 42), exceptionalHalt = False, gasLeft = 0,
      effects = emptySubState, created = 0xc0de\<rparr>"

definition plainTransfer :: "nat script" where
  "plainTransfer =
     \<lparr>needsRun = False, raises = None, exceptionalHalt = False, gasLeft = 0,
      effects = emptySubState, created = 0xc0de\<rparr>"

section \<open>Properties\<close>

subsection \<open>Placement and dispatch, case by case\<close>

lemma rethrow_id: "(case r of Inl exception \<Rightarrow> Inl exception | Inr v \<Rightarrow> Inr v) = r"
  by (cases r) simp_all

lemma goOnOffloadedStack_eq:
  "goOnOffloadedStack b h X e onOp' s =
     (if h (offloadedStackSize b)
      then e_go X (OffloadedThread (offloadedStackSize b)) e onOp' s
      else Inl thread_resource_error)"
  by (simp add: goOnOffloadedStack_def Let_def rethrow_id)

lemma go_eq:
  "go b h depth' X e onOp' s =
     (if depth' = c_offloadPoint b
      then (if h (offloadedStackSize b)
            then e_go X (OffloadedThread (offloadedStackSize b)) e onOp' s
            else Inl thread_resource_error)
      else e_go X CallingThread e onOp' s)"
  by (simp add: go_def goOnOffloadedStack_eq)

lemma ExtVM_call_done:
  assumes "beginCall X ext p = Inr (True, e1, s1)"
  shows "ExtVM_call b h X ext p =
           Inr (\<not> e_excepted X e1, ext\<lparr>m_s := s1, sub := sub ext\<rparr>, p\<lparr>gas := e_gas X e1\<rparr>, e1)"
  using assms by (simp add: ExtVM_call_def)

lemma ExtVM_call_run:
  assumes "beginCall X ext p = Inr (False, e1, s1)"
  shows "ExtVM_call b h X ext p =
           (case go b h (depth ext) X e1 (onOp p) s1 of
              Inl x \<Rightarrow> Inl x
            | Inr (e2, s2) \<Rightarrow>
                Inr (\<not> e_excepted X e2,
                     ext\<lparr>m_s := s2, sub := e_accrueSubState X e2 (sub ext)\<rparr>,
                     p\<lparr>gas := e_gas X e2\<rparr>, e2))"
  using assms by (simp add: ExtVM_call_def split: sum.split)

lemma ExtVM_call_raise:
  assumes "beginCall X ext p = Inl x"
  shows "ExtVM_call b h X ext p = Inl x"
  using assms by (simp add: ExtVM_call_def)

lemma ExtVM_create_done:
  assumes "beginCreate X ext (noteSending (myAddress ext) (m_s ext)) endowment io_gas code
             = Inr (True, e1, s1)"
  shows "ExtVM_create b h X ext endowment io_gas code onOp' =
           Inr (e_newAddress X e1, ext\<lparr>m_s := s1, sub := sub ext\<rparr>, e_gas X e1, e1)"
  using assms by (simp add: ExtVM_create_def)

lemma ExtVM_create_run:
  assumes "beginCreate X ext (noteSending (myAddress ext) (m_s ext)) endowment io_gas code
             = Inr (False, e1, s1)"
  shows "ExtVM_create b h X ext endowment io_gas code onOp' =
           (case go b h (depth ext) X e1 onOp' s1 of
              Inl x \<Rightarrow> Inl x
            | Inr (e2, s2) \<Rightarrow>
                Inr (e_newAddress X e2,
                     ext\<lparr>m_s := s2, sub := e_accrueSubState X e2 (sub ext)\<rparr>,
                     e_gas X e2, e2))"
  using assms by (simp add: ExtVM_create_def split: sum.split)

lemma ExtVM_create_raise:
  assumes "beginCreate X ext (noteSending (myAddress ext) (m_s ext)) endowment io_gas code
             = Inl x"
  shows "ExtVM_create b h X ext endowment io_gas code onOp' = Inl x"
  using assms by (simp add: ExtVM_create_def)

text \<open>Every normal return of a dispatcher, traced back to the frame operations.\<close>

lemma ExtVM_call_returns:
  assumes "ExtVM_call b h X ext p = Inr (ok, ext', p', e')"
  shows "\<exists>e1 s1.
           (beginCall X ext p = Inr (True, e1, s1)
              \<and> e' = e1 \<and> ext' = ext\<lparr>m_s := s1, sub := sub ext\<rparr>
            \<or> (\<exists>s2. beginCall X ext p = Inr (False, e1, s1)
              \<and> go b h (depth ext) X e1 (onOp p) s1 = Inr (e', s2)
              \<and> ext' = ext\<lparr>m_s := s2, sub := e_accrueSubState X e' (sub ext)\<rparr>))
           \<and> ok = (\<not> e_excepted X e') \<and> p' = p\<lparr>gas := e_gas X e'\<rparr>"
proof (cases "beginCall X ext p")
  case (Inl x)
  with assms show ?thesis by (simp add: ExtVM_call_raise)
next
  case (Inr r)
  obtain fin e1 s1 where r: "r = (fin, e1, s1)" by (cases r)
  show ?thesis
  proof (cases fin)
    case True
    with Inr r assms show ?thesis by (auto simp: ExtVM_call_done)
  next
    case False
    with Inr r assms show ?thesis
      by (auto simp: ExtVM_call_run split: sum.splits)
  qed
qed

lemma ExtVM_create_returns:
  assumes "ExtVM_create b h X ext endowment io_gas code onOp' = Inr (a, ext', g', e')"
  shows "\<exists>e1 s1.
           (beginCreate X ext (noteSending (myAddress ext) (m_s ext)) endowment io_gas code
               = Inr (True, e1, s1)
              \<and> e' = e1 \<and> ext' = ext\<lparr>m_s := s1, sub := sub ext\<rparr>
            \<or> (\<exists>s2. beginCreate X ext (noteSending (myAddress ext) (m_s ext)) endowment io_gas code
                = Inr (False, e1, s1)
              \<and> go b h (depth ext) X e1 onOp' s1 = Inr (e', s2)
              \<and> ext' = ext\<lparr>m_s := s2, sub := e_accrueSubState X e' (sub ext)\<rparr>))
           \<and> a = e_newAddress X e' \<and> g' = e_gas X e'"
proof (cases "beginCreate X ext (noteSending (myAddress ext) (m_s ext)) endowment io_gas code")
  case (Inl x)
  with assms show ?thesis by (simp add: ExtVM_create_raise)
next
  case (Inr r)
  obtain fin e1 s1 where r: "r = (fin, e1, s1)" by (cases r)
  show ?thesis
  proof (cases fin)
    case True
    with Inr r assms show ?thesis by (auto simp: ExtVM_create_done)
  next
    case False
    with Inr r assms show ?thesis
      by (auto simp: ExtVM_create_run split: sum.splits)
  qed
qed

subsection \<open>The stack budget\<close>

lemma c_offloadPoint_values:
  "c_offloadPoint (Build True Linux) = 806"
  "c_offloadPoint (Build False Linux) = 504"
  "c_offloadPoint (Build True Win32) = 1625"
  "c_offloadPoint (Build False Win32) = 1016"
  "c_offloadPoint (Build True OtherOS) = 38"
  "c_offloadPoint (Build False OtherOS) = 24"
  by (simp_all add: c_offloadPoint_def c_defaultStackSize_def c_entryOverhead_def
      c_singleExecutionStackSize_def)

text \<open>
  Floor division never overshoots: the offload point times any divisor, plus the
  overhead, stays within the stack it was derived from, provided the overhead fits.
\<close>

lemma budget_general:
  fixes dflt ovh single :: size_t
  assumes "ovh \<le> dflt"
  shows "unat (ucast ((dflt - ovh) div single) :: unsigned) * unat single + unat ovh
           \<le> unat dflt"
proof -
  have q: "unat ((dflt - ovh) div single) * unat single \<le> unat (dflt - ovh)"
    by (simp add: unat_div)
  have n: "unat (ucast ((dflt - ovh) div single) :: unsigned)
             \<le> unat ((dflt - ovh) div single)"
    by (simp add: unsigned_ucast_eq take_bit_nat_less_eq_self)
  have s: "unat (dflt - ovh) = unat dflt - unat ovh"
    using assms by (simp add: unat_sub)
  have le: "unat ovh \<le> unat dflt"
    using assms by (simp add: word_le_nat_alt)
  from n have "unat (ucast ((dflt - ovh) div single) :: unsigned) * unat single
      \<le> unat ((dflt - ovh) div single) * unat single"
    by (rule mult_le_mono1)
  with q s le show ?thesis by linarith
qed

lemma overhead_fits: "c_entryOverhead \<le> c_defaultStackSize b"
  by (cases b; cases "os b") (simp_all add: c_entryOverhead_def c_defaultStackSize_def)

text \<open>
  C8.  In every build configuration the derived offload point satisfies the stack
  budget invariant: offload point times per-call stack size, plus the entry overhead, is
  at most the default stack size (as natural numbers, without wrap-around).
\<close>

theorem stack_budget:
  "unat (c_offloadPoint b) * unat (c_singleExecutionStackSize b) + unat c_entryOverhead
     \<le> unat (c_defaultStackSize b)"
  unfolding c_offloadPoint_def by (rule budget_general [OF overhead_fits])

subsection \<open>The sample dispatch, evaluated\<close>

lemmas sample_defs = sampleExtVM_def sampleParams_def sampleLedger_def sampleSender_def
  sampleReceiver_def sampleEffects_def normalRun_def exceptionalRun_def raisingRun_def
  plainTransfer_def emptySubState_def accrue_def transferBalance_def scriptedFrame_def
  noteSending_def

lemmas budget_defs = c_depthLimit_def c_offloadPoint_values offloadedStackSize_def
  c_singleExecutionStackSize_def


lemma sample_call_exceptional:
  "ExtVM_call (Build True Linux) (\<lambda>_. True) (scriptedFrame exceptionalRun) (sampleExtVM 3)
       sampleParams =
     Inr (False, sampleExtVM 3, sampleParams\<lparr>gas := 0\<rparr>,
          \<lparr>f_depth = 4, f_gas = 0, f_excepted = True, f_sub = emptySubState,
           f_newAddress = 0, f_revertTo = sampleLedger, f_ranOn = Some CallingThread\<rparr>)"
  by (simp add: ExtVM_call_def go_eq sample_defs budget_defs Let_def)

lemma sample_call_plain:
  "ExtVM_call (Build True Linux) (\<lambda>_. True) (scriptedFrame plainTransfer) (sampleExtVM 3)
       sampleParams =
     Inr (True,
          (sampleExtVM 3)\<lparr>m_s := transferBalance sampleSender sampleReceiver 0x6f05b59d3b20000
                                      sampleLedger\<rparr>,
          sampleParams\<lparr>gas := 0x8fc\<rparr>,
          \<lparr>f_depth = 4, f_gas = 0x8fc, f_excepted = False, f_sub = emptySubState,
           f_newAddress = 0, f_revertTo = sampleLedger, f_ranOn = None\<rparr>)"
  by (simp add: ExtVM_call_def go_eq sample_defs budget_defs Let_def)

lemma sample_create_normal:
  "ExtVM_create (Build True Linux) (\<lambda>_. True) (scriptedFrame normalRun) (sampleExtVM 3)
       5 0x1000 [] (OnOp 0) =
     Inr (0xc0de,
          (sampleExtVM 3)\<lparr>m_s := transferBalance sampleSender 0xc0de 5
                                      (noteSending sampleSender sampleLedger),
                           sub := sampleEffects\<rparr>,
          0x100,
          \<lparr>f_depth = 4, f_gas = 0x100, f_excepted = False, f_sub = sampleEffects,
           f_newAddress = 0xc0de, f_revertTo = noteSending sampleSender sampleLedger,
           f_ranOn = Some CallingThread\<rparr>)"
  by (simp add: ExtVM_create_def go_eq sample_defs budget_defs Let_def)

lemma sample_create_exceptional:
  "ExtVM_create (Build True Linux) (\<lambda>_. True) (scriptedFrame exceptionalRun) (sampleExtVM 3)
       5 0x1000 [] (OnOp 0) =
     Inr (0, (sampleExtVM 3)\<lparr>m_s := noteSending sampleSender sampleLedger\<rparr>, 0,
          \<lparr>f_depth = 4, f_gas = 0, f_excepted = True, f_sub = emptySubState,
           f_newAddress = 0, f_revertTo = noteSending sampleSender sampleLedger,
           f_ranOn = Some CallingThread\<rparr>)"
  by (simp add: ExtVM_create_def go_eq sample_defs budget_defs Let_def)

lemma sample_call_raising:
  "ExtVM_call (Build True Linux) (\<lambda>_. True) (scriptedFrame raisingRun) (sampleExtVM 3)
       sampleParams = Inl (thrown 42)"
  by (simp add: ExtVM_call_def go_eq sample_defs budget_defs Let_def)

lemma sample_call_raising_offloaded:
  "ExtVM_call (Build True Linux) (\<lambda>_. True) (scriptedFrame raisingRun) (sampleExtVM 806)
       sampleParams = Inl (thrown 42)"
  by (simp add: ExtVM_call_def go_eq sample_defs budget_defs Let_def)


lemma sample_call_offloaded:
  "ExtVM_call (Build True Linux) (\<lambda>_. True) (scriptedFrame normalRun) (sampleExtVM 806)
       sampleParams =
     Inr (True,
          (sampleExtVM 806)\<lparr>m_s := transferBalance sampleSender sampleReceiver 0x6f05b59d3b20000
                                      sampleLedger,
                           sub := sampleEffects\<rparr>,
          sampleParams\<lparr>gas := 0x100\<rparr>,
          \<lparr>f_depth = 807, f_gas = 0x100, f_excepted = False, f_sub = sampleEffects,
           f_newAddress = 0, f_revertTo = sampleLedger,
           f_ranOn = Some (OffloadedThread 2232320)\<rparr>)"
  by (simp add: ExtVM_call_def go_eq sample_defs budget_defs Let_def)

lemma sample_call_below_offload:
  "ExtVM_call (Build True Linux) (\<lambda>_. True) (scriptedFrame normalRun) (sampleExtVM 805)
       sampleParams =
     Inr (True,
          (sampleExtVM 805)\<lparr>m_s := transferBalance sampleSender sampleReceiver 0x6f05b59d3b20000
                                      sampleLedger,
                           sub := sampleEffects\<rparr>,
          sampleParams\<lparr>gas := 0x100\<rparr>,
          \<lparr>f_depth = 806, f_gas = 0x100, f_excepted = False, f_sub = sampleEffects,
           f_newAddress = 0, f_revertTo = sampleLedger, f_ranOn = Some CallingThread\<rparr>)"
  by (simp add: ExtVM_call_def go_eq sample_defs budget_defs Let_def)

lemma sample_call_at_limit:
  "ExtVM_call (Build True Linux) (\<lambda>_. True) (scriptedFrame normalRun) (sampleExtVM 1024)
       sampleParams =
     Inr (False, sampleExtVM 1024, sampleParams\<lparr>gas := 0\<rparr>,
          \<lparr>f_depth = 1025, f_gas = 0, f_excepted = True, f_sub = emptySubState,
           f_newAddress = 0, f_revertTo = sampleLedger, f_ranOn = None\<rparr>)"
  by (simp add: ExtVM_call_def go_eq sample_defs budget_defs Let_def)

lemma sample_create_at_limit:
  "ExtVM_create (Build True Linux) (\<lambda>_. True) (scriptedFrame normalRun) (sampleExtVM 1024)
       5 0x1000 [] (OnOp 0) =
     Inr (0, (sampleExtVM 1024)\<lparr>m_s := noteSending sampleSender sampleLedger\<rparr>, 0,
          \<lparr>f_depth = 1025, f_gas = 0, f_excepted = True, f_sub = emptySubState,
           f_newAddress = 0, f_revertTo = noteSending sampleSender sampleLedger,
           f_ranOn = None\<rparr>)"
  by (simp add: ExtVM_create_def go_eq sample_defs budget_defs Let_def)

lemma sample_ledger_facts:
  "nonce sampleLedger sampleSender = 7"
  "nonce (noteSending sampleSender sampleLedger) sampleSender = 8"
  "balance sampleLedger sampleSender = 0x29a2241af62c0002"
  "balance sampleLedger sampleReceiver = 0x4440781269739936"
  "balance (transferBalance sampleSender sampleReceiver 0x6f05b59d3b20000 sampleLedger)
     sampleSender = 0x22b1c8c1227a0002"
  "balance (transferBalance sampleSender sampleReceiver 0x6f05b59d3b20000 sampleLedger)
     sampleReceiver = 0x4b30d36c3d259936"
  by (simp_all add: sample_defs Let_def)

lemma scriptedFrame_depth_checked: "depth_checked (scriptedFrame sc)"
  by (simp add: depth_checked_def scriptedFrame_def)



subsection \<open>SubState merge\<close>








subsection \<open>The depth limit\<close>

lemma noteSending_effect:
  "nonce (noteSending a s) a = nonce s a + 1"
  "a' \<noteq> a \<Longrightarrow> nonce (noteSending a s) a' = nonce s a'"
  "balance (noteSending a s) = balance s"
  by (simp_all add: noteSending_def)

lemma ExtVM_call_ledger:
  assumes "ExtVM_call b h X ext p = Inr (ok, ext', p', e')"
  shows "(\<exists>e1. beginCall X ext p = Inr (True, e1, m_s ext')) \<or>
         (\<exists>e1 s1. beginCall X ext p = Inr (False, e1, s1) \<and>
              go b h (depth ext) X e1 (onOp p) s1 = Inr (e', m_s ext'))"
  using ExtVM_call_returns [OF assms] by auto

text \<open>
  C3.  \<^verbatim>\<open>ExtVM::call\<close> writes no balance and no nonce of its own: the ledger it returns is
  the one the frame left.  For a frame whose construction checks the depth as the spec
  says, a call attempted at depth equal to the depth limit returns \<^verbatim>\<open>false\<close> with the
  frame exceptional from its construction, and the ledger and the caller's SubState are
  what they were.  A creation attempted there ends exceptionally as well, and the ledger
  it returns is exactly the ledger the frame was constructed on: the attempt itself
  changes no balance and no nonce.  (That ledger holds the increment of the sender's
  nonce, which the dispatcher makes before the creation is attempted.)
\<close>

theorem dispatch_at_depth_limit:
  "(ExtVM_call b h X ext p = Inr (ok, ext', p', e') \<longrightarrow>
      (\<exists>e1. beginCall X ext p = Inr (True, e1, m_s ext')) \<or>
      (\<exists>e1 s1. beginCall X ext p = Inr (False, e1, s1) \<and>
           go b h (depth ext) X e1 (onOp p) s1 = Inr (e', m_s ext'))) \<and>
   (depth_checked X \<and> depth ext = c_depthLimit \<longrightarrow>
      ExtVM_call b h X ext p =
        Inr (False, ext, p\<lparr>gas := e_gas X (childFrame X ext (m_s ext))\<rparr>,
             childFrame X ext (m_s ext)) \<and>
      e_excepted X (childFrame X ext (m_s ext)) \<and>
      ExtVM_create b h X ext endowment io_gas code onOp' =
        Inr (e_newAddress X (childFrame X ext (noteSending (myAddress ext) (m_s ext))),
             ext\<lparr>m_s := noteSending (myAddress ext) (m_s ext)\<rparr>,
             e_gas X (childFrame X ext (noteSending (myAddress ext) (m_s ext))),
             childFrame X ext (noteSending (myAddress ext) (m_s ext))) \<and>
      e_excepted X (childFrame X ext (noteSending (myAddress ext) (m_s ext))))"
proof (intro conjI impI)
  assume "ExtVM_call b h X ext p = Inr (ok, ext', p', e')"
  then show "(\<exists>e1. beginCall X ext p = Inr (True, e1, m_s ext')) \<or>
      (\<exists>e1 s1. beginCall X ext p = Inr (False, e1, s1) \<and>
           go b h (depth ext) X e1 (onOp p) s1 = Inr (e', m_s ext'))"
    by (rule ExtVM_call_ledger)
next
  assume a: "depth_checked X \<and> depth ext = c_depthLimit"
  then have over: "c_depthLimit < depth ext + 1"
    by (simp add: c_depthLimit_def)
  let ?e = "childFrame X ext (m_s ext)"
  let ?s0 = "noteSending (myAddress ext) (m_s ext)"
  let ?c = "childFrame X ext ?s0"
  from a over show ex: "e_excepted X ?e" and exc: "e_excepted X ?c"
    unfolding depth_checked_def by blast+
  from a over have "beginCall X ext p = Inr (True, ?e, m_s ext)"
    unfolding depth_checked_def by blast
  then show "ExtVM_call b h X ext p = Inr (False, ext, p\<lparr>gas := e_gas X ?e\<rparr>, ?e)"
    using ex by (simp add: ExtVM_call_done)
  from a over have "beginCreate X ext ?s0 endowment io_gas code = Inr (True, ?c, ?s0)"
    unfolding depth_checked_def by blast
  then show "ExtVM_create b h X ext endowment io_gas code onOp' =
      Inr (e_newAddress X ?c, ext\<lparr>m_s := ?s0\<rparr>, e_gas X ?c, ?c)"
    by (simp add: ExtVM_create_done)
qed

text \<open>
  The theorem at the sample, on the spec's frame: the dispatcher stands at depth 1024;
  the call returns \<^verbatim>\<open>false\<close> with the \<^verbatim>\<open>ExtVM\<close> as it was; the creation returns the
  zero address, and its ledger is the one the frame was constructed on.
\<close>

theorem dispatch_at_depth_limit_witness:
  "depth_checked (scriptedFrame normalRun) \<and>
   depth (sampleExtVM 1024) = c_depthLimit \<and>
   ExtVM_call (Build True Linux) (\<lambda>_. True) (scriptedFrame normalRun) (sampleExtVM 1024)
       sampleParams =
     Inr (False, sampleExtVM 1024, sampleParams\<lparr>gas := 0\<rparr>,
          \<lparr>f_depth = 1025, f_gas = 0, f_excepted = True, f_sub = emptySubState,
           f_newAddress = 0, f_revertTo = sampleLedger, f_ranOn = None\<rparr>) \<and>
   ExtVM_create (Build True Linux) (\<lambda>_. True) (scriptedFrame normalRun) (sampleExtVM 1024)
       5 0x1000 [] (OnOp 0) =
     Inr (0, (sampleExtVM 1024)\<lparr>m_s := noteSending sampleSender sampleLedger\<rparr>, 0,
          \<lparr>f_depth = 1025, f_gas = 0, f_excepted = True, f_sub = emptySubState,
           f_newAddress = 0, f_revertTo = noteSending sampleSender sampleLedger,
           f_ranOn = None\<rparr>)"
proof -
  have d: "depth (sampleExtVM 1024) = c_depthLimit"
    by (simp add: sampleExtVM_def c_depthLimit_def)
  from dispatch_at_depth_limit
         [where X = "scriptedFrame normalRun" and ext = "sampleExtVM 1024"
            and b = "Build True Linux" and h = "\<lambda>_. True" and p = sampleParams,
          THEN conjunct2, rule_format, OF conjI [OF scriptedFrame_depth_checked d]]
  have "e_excepted (scriptedFrame normalRun)
          (childFrame (scriptedFrame normalRun) (sampleExtVM 1024) (m_s (sampleExtVM 1024)))"
    by blast
  with scriptedFrame_depth_checked d sample_call_at_limit sample_create_at_limit
  show ?thesis by blast
qed

subsection \<open>The nonce of the creating account\<close>

lemma ExtVM_create_raises:
  "ExtVM_create b h X ext endowment io_gas code onOp' = Inl x \<longleftrightarrow>
     beginCreate X ext (noteSending (myAddress ext) (m_s ext)) endowment io_gas code = Inl x \<or>
     (\<exists>e1 s1.
         beginCreate X ext (noteSending (myAddress ext) (m_s ext)) endowment io_gas code
             = Inr (False, e1, s1) \<and>
         go b h (depth ext) X e1 onOp' s1 = Inl x)"
proof (cases "beginCreate X ext (noteSending (myAddress ext) (m_s ext)) endowment io_gas code")
  case (Inl y)
  then show ?thesis by (simp add: ExtVM_create_raise)
next
  case (Inr r)
  obtain fin e1 s1 where r: "r = (fin, e1, s1)" by (cases r)
  show ?thesis
  proof (cases fin)
    case True
    with Inr r show ?thesis by (simp add: ExtVM_create_done)
  next
    case False
    with Inr r show ?thesis by (simp add: ExtVM_create_run split: sum.split)
  qed
qed

text \<open>
  C2.  \<^verbatim>\<open>ExtVM::create\<close> increments the sender's nonce once, first and on every path:
  \<^verbatim>\<open>noteSending\<close> adds one to that nonce and touches nothing else; every outcome of the
  creation, an address or a fault, comes from frame operations that were started on the
  incremented ledger; the ledger returned is the one the frame left, so whenever the frame
  leaves the sender's nonce as it found it, the nonce after the creation is the old one
  plus one, whether the creation succeeded or ended exceptionally.
\<close>

theorem create_increments_nonce_first:
  "nonce (noteSending (myAddress ext) (m_s ext)) (myAddress ext)
     = nonce (m_s ext) (myAddress ext) + 1 \<and>
   (\<forall>a'. a' \<noteq> myAddress ext \<longrightarrow>
      nonce (noteSending (myAddress ext) (m_s ext)) a' = nonce (m_s ext) a') \<and>
   balance (noteSending (myAddress ext) (m_s ext)) = balance (m_s ext) \<and>
   (ExtVM_create b h X ext endowment io_gas code onOp' = Inr (a, ext', g', e') \<longrightarrow>
      (\<exists>s1. beginCreate X ext (noteSending (myAddress ext) (m_s ext)) endowment io_gas code
          = Inr (True, e', s1) \<and>
            m_s ext' = s1) \<or>
      (\<exists>e1 s1 s2.
            beginCreate X ext (noteSending (myAddress ext) (m_s ext)) endowment io_gas code
                = Inr (False, e1, s1) \<and>
            go b h (depth ext) X e1 onOp' s1 = Inr (e', s2) \<and> m_s ext' = s2)) \<and>
   (ExtVM_create b h X ext endowment io_gas code onOp' = Inl x \<longrightarrow>
      beginCreate X ext (noteSending (myAddress ext) (m_s ext)) endowment io_gas code = Inl x \<or>
      (\<exists>e1 s1.
          beginCreate X ext (noteSending (myAddress ext) (m_s ext)) endowment io_gas code
              = Inr (False, e1, s1) \<and>
          go b h (depth ext) X e1 onOp' s1 = Inl x)) \<and>
   (ExtVM_create b h X ext endowment io_gas code onOp' = Inr (a, ext', g', e') \<and>
    (\<forall>fin e1 s1.
        beginCreate X ext (noteSending (myAddress ext) (m_s ext)) endowment io_gas code
            = Inr (fin, e1, s1) \<longrightarrow>
        nonce s1 (myAddress ext) = nonce (noteSending (myAddress ext) (m_s ext)) (myAddress ext) \<and>
        (\<forall>c e2 s2. e_go X c e1 onOp' s1 = Inr (e2, s2) \<longrightarrow>
           nonce s2 (myAddress ext)
             = nonce (noteSending (myAddress ext) (m_s ext)) (myAddress ext))) \<longrightarrow>
      nonce (m_s ext') (myAddress ext) = nonce (m_s ext) (myAddress ext) + 1)"
proof (intro conjI impI allI)
  show "nonce (noteSending (myAddress ext) (m_s ext)) (myAddress ext)
     = nonce (m_s ext) (myAddress ext) + 1"
    by (rule noteSending_effect)
  show "nonce (noteSending (myAddress ext) (m_s ext)) a' = nonce (m_s ext) a'"
    if "a' \<noteq> myAddress ext" for a'
    using that by (rule noteSending_effect)
  show "balance (noteSending (myAddress ext) (m_s ext)) = balance (m_s ext)"
    by (rule noteSending_effect)
next
  assume r: "ExtVM_create b h X ext endowment io_gas code onOp' = Inr (a, ext', g', e')"
  from ExtVM_create_returns [OF r]
  show "(\<exists>s1. beginCreate X ext (noteSending (myAddress ext) (m_s ext)) endowment io_gas code
      = Inr (True, e', s1) \<and>
            m_s ext' = s1) \<or>
      (\<exists>e1 s1 s2.
            beginCreate X ext (noteSending (myAddress ext) (m_s ext)) endowment io_gas code
                = Inr (False, e1, s1) \<and>
            go b h (depth ext) X e1 onOp' s1 = Inr (e', s2) \<and> m_s ext' = s2)"
    by auto
next
  assume "ExtVM_create b h X ext endowment io_gas code onOp' = Inl x"
  then show "beginCreate X ext (noteSending (myAddress ext) (m_s ext)) endowment io_gas code
      = Inl x \<or>
      (\<exists>e1 s1.
          beginCreate X ext (noteSending (myAddress ext) (m_s ext)) endowment io_gas code
              = Inr (False, e1, s1) \<and>
          go b h (depth ext) X e1 onOp' s1 = Inl x)"
    by (simp only: ExtVM_create_raises)
next
  let ?s0 = "noteSending (myAddress ext) (m_s ext)"
  let ?begin = "e_create X (Executive_new X ?s0 (envInfo ext) (m_sealEngine ext) (depth ext + 1))
            (myAddress ext) endowment (gasPrice ext) io_gas code (origin ext) ?s0"
  assume a: "ExtVM_create b h X ext endowment io_gas code onOp' = Inr (a, ext', g', e') \<and>
    (\<forall>fin e1 s1. ?begin = Inr (fin, e1, s1) \<longrightarrow>
        nonce s1 (myAddress ext) = nonce ?s0 (myAddress ext) \<and>
        (\<forall>c e2 s2. e_go X c e1 onOp' s1 = Inr (e2, s2) \<longrightarrow>
           nonce s2 (myAddress ext) = nonce ?s0 (myAddress ext)))"
  then have r: "ExtVM_create b h X ext endowment io_gas code onOp' = Inr (a, ext', g', e')"
    and keep1: "\<And>fin e1 s1. ?begin = Inr (fin, e1, s1) \<Longrightarrow>
        nonce s1 (myAddress ext) = nonce ?s0 (myAddress ext)"
    and keep2: "\<And>fin e1 s1 c e2 s2. ?begin = Inr (fin, e1, s1) \<Longrightarrow>
        e_go X c e1 onOp' s1 = Inr (e2, s2) \<Longrightarrow>
        nonce s2 (myAddress ext) = nonce ?s0 (myAddress ext)"
    by blast+
  from ExtVM_create_returns [OF r] obtain e1 s1 where
    "(?begin = Inr (True, e1, s1) \<and> e' = e1 \<and> ext' = ext\<lparr>m_s := s1, sub := sub ext\<rparr>) \<or>
     (\<exists>s2. ?begin = Inr (False, e1, s1) \<and> go b h (depth ext) X e1 onOp' s1 = Inr (e', s2) \<and>
           ext' = ext\<lparr>m_s := s2, sub := e_accrueSubState X e' (sub ext)\<rparr>)"
    by blast
  then have "nonce (m_s ext') (myAddress ext) = nonce ?s0 (myAddress ext)"
  proof
    assume "?begin = Inr (True, e1, s1) \<and> e' = e1 \<and> ext' = ext\<lparr>m_s := s1, sub := sub ext\<rparr>"
    then show ?thesis using keep1 by simp
  next
    assume "\<exists>s2. ?begin = Inr (False, e1, s1) \<and> go b h (depth ext) X e1 onOp' s1 = Inr (e', s2) \<and>
           ext' = ext\<lparr>m_s := s2, sub := e_accrueSubState X e' (sub ext)\<rparr>"
    then obtain s2 where b: "?begin = Inr (False, e1, s1)"
      and g: "go b h (depth ext) X e1 onOp' s1 = Inr (e', s2)"
      and x: "ext' = ext\<lparr>m_s := s2, sub := e_accrueSubState X e' (sub ext)\<rparr>"
      by blast
    from g have "\<exists>c. e_go X c e1 onOp' s1 = Inr (e', s2)"
      by (auto simp: go_eq split: if_splits)
    then obtain c where "e_go X c e1 onOp' s1 = Inr (e', s2)" by blast
    from keep2 [OF b this] x show ?thesis by simp
  qed
  then show "nonce (m_s ext') (myAddress ext) = nonce (m_s ext) (myAddress ext) + 1"
    by (simp add: noteSending_effect)
qed

text \<open>
  The theorem at the sample creation whose run halts exceptionally: the ledger is rolled
  back to where the frame began, and the sender's nonce is 8, one more than the 7 it had.
\<close>

theorem create_increments_nonce_first_witness:
  "(case ExtVM_create (Build True Linux) (\<lambda>_. True) (scriptedFrame exceptionalRun)
          (sampleExtVM 3) 5 0x1000 [] (OnOp 0) of
      Inl x \<Rightarrow> False
    | Inr (a, ext', g', e') \<Rightarrow>
        a = 0 \<and> e_excepted (scriptedFrame exceptionalRun) e' \<and>
        nonce (m_s ext') (myAddress (sampleExtVM 3))
          = nonce (m_s (sampleExtVM 3)) (myAddress (sampleExtVM 3)) + 1 \<and>
        nonce (m_s ext') sampleSender = 8) \<and>
   nonce (m_s (sampleExtVM 3)) sampleSender = 7"
proof -
  let ?X = "scriptedFrame exceptionalRun :: (Frame, nat) Executive"
  let ?ext = "sampleExtVM 3"
  let ?s0 = "noteSending (myAddress ?ext) (m_s ?ext)"
  have keep: "\<forall>fin e1 s1.
        e_create ?X (Executive_new ?X ?s0 (envInfo ?ext) (m_sealEngine ?ext) (depth ?ext + 1))
            (myAddress ?ext) 5 (gasPrice ?ext) 0x1000 [] (origin ?ext) ?s0 = Inr (fin, e1, s1) \<longrightarrow>
        nonce s1 (myAddress ?ext) = nonce ?s0 (myAddress ?ext) \<and>
        (\<forall>c e2 s2. e_go ?X c e1 (OnOp 0) s1 = Inr (e2, s2) \<longrightarrow>
           nonce s2 (myAddress ?ext) = nonce ?s0 (myAddress ?ext))"
    by (auto simp: scriptedFrame_def exceptionalRun_def transferBalance_def Let_def
        sampleExtVM_def c_depthLimit_def)
  from create_increments_nonce_first
         [THEN conjunct2, THEN conjunct2, THEN conjunct2, THEN conjunct2, THEN conjunct2,
          rule_format, OF conjI [OF sample_create_exceptional keep]]
  have "nonce (noteSending sampleSender sampleLedger) (myAddress ?ext)
          = nonce (m_s ?ext) (myAddress ?ext) + 1"
    by simp
  then show ?thesis
    by (simp add: sample_create_exceptional) (simp add: sample_defs)
qed

text \<open>
  On the spec's frame this holds for every script and at every depth: whatever the
  creation does, the sender's nonce ends one above where it was.
\<close>

lemma scripted_create_nonce:
  assumes "ExtVM_create b h (scriptedFrame sc) ext endowment io_gas code onOp'
             = Inr (a, ext', g', e')"
  shows "nonce (m_s ext') (myAddress ext) = nonce (m_s ext) (myAddress ext) + 1"
  using assms
  by (auto simp: ExtVM_create_def go_eq scriptedFrame_def transferBalance_def noteSending_def
      Let_def split: if_splits option.splits sum.splits)

subsection \<open>Gas written back\<close>

text \<open>
  C4.  On every return of \<^verbatim>\<open>ExtVM::call\<close> the \<^verbatim>\<open>gas\<close> field of the parameters is the
  remaining gas of the child frame as it stands at the return (the frame left by its
  begin operation, or by its run when it had to be run), and the returned boolean is the
  negation of that frame's exceptional flag, so the value is written back on the success
  and on the failure path alike; on every return of \<^verbatim>\<open>ExtVM::create\<close> the same holds for
  \<^verbatim>\<open>io_gas\<close>.
\<close>

theorem gas_written_back:
  "(ExtVM_call b h X ext p = Inr (ok, ext', p', e') \<longrightarrow>
      gas p' = e_gas X e' \<and> ok = (\<not> e_excepted X e') \<and>
      ((\<exists>s1. beginCall X ext p = Inr (True, e', s1)) \<or>
       (\<exists>e1 s1 s2.
            beginCall X ext p = Inr (False, e1, s1) \<and>
            go b h (depth ext) X e1 (onOp p) s1 = Inr (e', s2)))) \<and>
   (ExtVM_create b h X ext endowment io_gas code onOp' = Inr (a, cext', g', ce') \<longrightarrow>
      g' = e_gas X ce' \<and> a = e_newAddress X ce' \<and>
      ((\<exists>s1. beginCreate X ext (noteSending (myAddress ext) (m_s ext)) endowment io_gas code
          = Inr (True, ce', s1)) \<or>
       (\<exists>e1 s1 s2.
            beginCreate X ext (noteSending (myAddress ext) (m_s ext)) endowment io_gas code
                = Inr (False, e1, s1) \<and>
            go b h (depth ext) X e1 onOp' s1 = Inr (ce', s2))))"
proof (intro conjI impI)
  assume r: "ExtVM_call b h X ext p = Inr (ok, ext', p', e')"
  from ExtVM_call_returns [OF r] show "gas p' = e_gas X e'" by auto
  from ExtVM_call_returns [OF r] show "ok = (\<not> e_excepted X e')" by auto
  from ExtVM_call_returns [OF r]
  show "(\<exists>s1. beginCall X ext p = Inr (True, e', s1)) \<or>
       (\<exists>e1 s1 s2.
            beginCall X ext p = Inr (False, e1, s1) \<and>
            go b h (depth ext) X e1 (onOp p) s1 = Inr (e', s2))"
    by blast
next
  assume r: "ExtVM_create b h X ext endowment io_gas code onOp' = Inr (a, cext', g', ce')"
  from ExtVM_create_returns [OF r] show "g' = e_gas X ce'" by auto
  from ExtVM_create_returns [OF r] show "a = e_newAddress X ce'" by auto
  from ExtVM_create_returns [OF r]
  show "(\<exists>s1. beginCreate X ext (noteSending (myAddress ext) (m_s ext)) endowment io_gas code
      = Inr (True, ce', s1)) \<or>
       (\<exists>e1 s1 s2.
            beginCreate X ext (noteSending (myAddress ext) (m_s ext)) endowment io_gas code
                = Inr (False, e1, s1) \<and>
            go b h (depth ext) X e1 onOp' s1 = Inr (ce', s2))"
    by blast
qed

text \<open>
  The theorem at the sample: the call whose run halts exceptionally returns \<^verbatim>\<open>false\<close>
  with the frame's gas 0 written back, the plain transfer returns \<^verbatim>\<open>true\<close> with the
  call gas untouched, and the creation whose run halts normally leaves the frame's gas
  \<open>0x100\<close> in \<^verbatim>\<open>io_gas\<close>.
\<close>

theorem gas_written_back_witness:
  "(case ExtVM_call (Build True Linux) (\<lambda>_. True) (scriptedFrame exceptionalRun)
          (sampleExtVM 3) sampleParams of
      Inl x \<Rightarrow> False
    | Inr (ok, ext', p', e') \<Rightarrow>
        \<not> ok \<and> gas p' = e_gas (scriptedFrame exceptionalRun) e' \<and> gas p' = 0) \<and>
   (case ExtVM_call (Build True Linux) (\<lambda>_. True) (scriptedFrame plainTransfer)
          (sampleExtVM 3) sampleParams of
      Inl x \<Rightarrow> False
    | Inr (ok, ext', p', e') \<Rightarrow>
        ok \<and> gas p' = e_gas (scriptedFrame plainTransfer) e' \<and> gas p' = 0x8fc) \<and>
   (case ExtVM_create (Build True Linux) (\<lambda>_. True) (scriptedFrame normalRun)
          (sampleExtVM 3) 5 0x1000 [] (OnOp 0) of
      Inl x \<Rightarrow> False
    | Inr (a, ext', g', e') \<Rightarrow>
        g' = e_gas (scriptedFrame normalRun) e' \<and> g' = 0x100 \<and> a = 0xc0de)"
  using gas_written_back [THEN conjunct1, rule_format, OF sample_call_exceptional]
    gas_written_back [THEN conjunct1, rule_format, OF sample_call_plain]
    gas_written_back [THEN conjunct2, rule_format, OF sample_create_normal]
  by (simp add: sample_call_exceptional sample_call_plain sample_create_normal)

subsection \<open>Placement by depth\<close>

lemma unat_succ_no_wrap:
  fixes d :: unsigned
  assumes "unat d + 1 < 2 ^ 32"
  shows "unat (d + 1) = unat d + 1"
  using assms by (simp add: unat_word_ariths)

lemma chain_above:
  "unat d + n \<le> 2 ^ 32 \<Longrightarrow> unat k < unat d \<Longrightarrow> k \<notin> set (chain d n)"
proof (induction n arbitrary: d)
  case 0
  then show ?case by simp
next
  case (Suc n)
  from Suc.prems have kd: "k \<noteq> d" by auto
  show ?case
  proof (cases n)
    case 0
    with kd show ?thesis by simp
  next
    case (Suc m)
    with Suc.prems have "unat d + 1 < 2 ^ 32" by simp
    then have u: "unat (d + 1) = unat d + 1" by (rule unat_succ_no_wrap)
    with Suc.prems have "unat (d + 1) + n \<le> 2 ^ 32" "unat k < unat (d + 1)" by simp_all
    then have "k \<notin> set (chain (d + 1) n)" by (rule Suc.IH)
    with kd show ?thesis by simp
  qed
qed

lemma chain_relocates_once:
  "unat d + n \<le> 2 ^ 32 \<Longrightarrow> length (filter (\<lambda>k. k = c) (chain d n)) \<le> 1"
proof (induction n arbitrary: d)
  case 0
  then show ?case by simp
next
  case (Suc n)
  show ?case
  proof (cases n)
    case 0
    then show ?thesis by simp
  next
    case (Suc m)
    with Suc.prems have "unat d + 1 < 2 ^ 32" by simp
    then have u: "unat (d + 1) = unat d + 1" by (rule unat_succ_no_wrap)
    with Suc.prems have fits: "unat (d + 1) + n \<le> 2 ^ 32" by simp
    show ?thesis
    proof (cases "d = c")
      case True
      from u have "unat d < unat (d + 1)" by simp
      with fits have "d \<notin> set (chain (d + 1) n)" by (rule chain_above)
      with True have "filter (\<lambda>k. k = c) (chain (d + 1) n) = []"
        by (auto simp: filter_empty_conv)
      with True show ?thesis by simp
    next
      case False
      with Suc.IH [OF fits] show ?thesis by simp
    qed
  qed
qed

text \<open>
  C5.  Below the offload point \<^verbatim>\<open>go\<close> is the frame's run loop on the caller's stack,
  whatever the host could start.  At every depth \<^verbatim>\<open>go\<close> is the run loop on a new
  thread's stack if the depth equals the offload point (or the thread fault when the
  thread cannot be started) and the run loop on the caller's stack otherwise.  Along a
  chain of nested dispatches at most one depth equals the offload point.
\<close>

theorem placement_by_depth:
  "(depth' < c_offloadPoint b \<longrightarrow> go b h depth' X e onOp' s = e_go X CallingThread e onOp' s) \<and>
   go b h depth' X e onOp' s =
     (if depth' = c_offloadPoint b
      then (if h (offloadedStackSize b)
            then e_go X (OffloadedThread (offloadedStackSize b)) e onOp' s
            else Inl thread_resource_error)
      else e_go X CallingThread e onOp' s) \<and>
   (unat d + n \<le> 2 ^ 32 \<longrightarrow>
      length (filter (\<lambda>k. k = c_offloadPoint b) (chain d n)) \<le> 1)"
proof (intro conjI impI)
  assume "depth' < c_offloadPoint b"
  then have "depth' \<noteq> c_offloadPoint b" by auto
  then show "go b h depth' X e onOp' s = e_go X CallingThread e onOp' s"
    by (simp add: go_eq)
next
  show "go b h depth' X e onOp' s =
     (if depth' = c_offloadPoint b
      then (if h (offloadedStackSize b)
            then e_go X (OffloadedThread (offloadedStackSize b)) e onOp' s
            else Inl thread_resource_error)
      else e_go X CallingThread e onOp' s)"
    by (rule go_eq)
next
  assume "unat d + n \<le> 2 ^ 32"
  then show "length (filter (\<lambda>k. k = c_offloadPoint b) (chain d n)) \<le> 1"
    by (rule chain_relocates_once)
qed

text \<open>
  The theorem at the Linux release build: depth 3 lies below the offload point 806 and
  the sample frame runs on the caller's stack even on a host that starts no thread; the
  chain of the 1025 dispatches from depth 0 holds the offload point once.
\<close>

theorem placement_by_depth_witness:
  "(3 :: unsigned) < c_offloadPoint (Build True Linux) \<and>
   go (Build True Linux) (\<lambda>_. False) 3 (scriptedFrame normalRun)
       (Executive_new (scriptedFrame normalRun) sampleLedger (EnvInfo 0) (SealEngine 0) 4)
       (OnOp 0) sampleLedger =
     e_go (scriptedFrame normalRun) CallingThread
       (Executive_new (scriptedFrame normalRun) sampleLedger (EnvInfo 0) (SealEngine 0) 4)
       (OnOp 0) sampleLedger \<and>
   unat (0 :: unsigned) + 1025 \<le> 2 ^ 32 \<and>
   length (filter (\<lambda>k. k = c_offloadPoint (Build True Linux)) (chain 0 1025)) \<le> 1"
proof -
  have lt: "(3 :: unsigned) < c_offloadPoint (Build True Linux)"
    by (simp add: c_offloadPoint_values)
  have fits: "unat (0 :: unsigned) + 1025 \<le> 2 ^ 32" by simp
  from placement_by_depth
         [where h = "\<lambda>_. False" and X = "scriptedFrame normalRun" and onOp' = "OnOp 0"
            and s = sampleLedger
            and e = "Executive_new (scriptedFrame normalRun) sampleLedger (EnvInfo 0)
                       (SealEngine 0) 4",
          THEN conjunct1, rule_format, OF lt]
    placement_by_depth
         [where b = "Build True Linux", THEN conjunct2, THEN conjunct2, rule_format, OF fits]
    lt fits
  show ?thesis by simp
qed

subsection \<open>Relocation is transparent\<close>

text \<open>
  C6.  When the thread is started, the relocated run is the frame's run loop on the new
  stack, value for value and fault for fault; for a frame whose run loop gives on the
  new stack what it gives on the caller's, \<^verbatim>\<open>go\<close> at the offload point gives what the
  unrelocated run gives; and a fault raised on the new stack reaches the caller as the
  same fault, with its payload.
\<close>

theorem relocated_run_equivalent:
  "h (offloadedStackSize b) \<longrightarrow>
     goOnOffloadedStack b h X e onOp' s
       = e_go X (OffloadedThread (offloadedStackSize b)) e onOp' s \<and>
     (e_go X (OffloadedThread (offloadedStackSize b)) e onOp' s
        = e_go X CallingThread e onOp' s \<longrightarrow>
      go b h (c_offloadPoint b) X e onOp' s = unrelocatedRun X e onOp' s) \<and>
     (\<forall>x. e_go X (OffloadedThread (offloadedStackSize b)) e onOp' s = Inl x \<longrightarrow>
        go b h (c_offloadPoint b) X e onOp' s = Inl x)"
  by (simp add: go_eq goOnOffloadedStack_eq unrelocatedRun_def)

text \<open>
  The theorem at the sample frame whose run loop raises \<open>thrown 42\<close>: relocated at the
  offload point of the Linux release build, it raises the same fault as unrelocated.
\<close>

theorem relocated_run_equivalent_witness:
  "go (Build True Linux) (\<lambda>_. True) (c_offloadPoint (Build True Linux))
       (scriptedFrame raisingRun)
       (Executive_new (scriptedFrame raisingRun) sampleLedger (EnvInfo 0) (SealEngine 0) 807)
       (OnOp 0) sampleLedger =
     unrelocatedRun (scriptedFrame raisingRun)
       (Executive_new (scriptedFrame raisingRun) sampleLedger (EnvInfo 0) (SealEngine 0) 807)
       (OnOp 0) sampleLedger \<and>
   go (Build True Linux) (\<lambda>_. True) (c_offloadPoint (Build True Linux))
       (scriptedFrame raisingRun)
       (Executive_new (scriptedFrame raisingRun) sampleLedger (EnvInfo 0) (SealEngine 0) 807)
       (OnOp 0) sampleLedger = Inl (thrown 42)"
proof -
  let ?X = "scriptedFrame raisingRun :: (Frame, nat) Executive"
  let ?e = "Executive_new ?X sampleLedger (EnvInfo 0) (SealEngine 0) 807"
  have r: "e_go ?X (OffloadedThread (offloadedStackSize (Build True Linux))) ?e
             (OnOp 0) sampleLedger = Inl (thrown 42)"
    by (simp add: scriptedFrame_def raisingRun_def)
  have same: "e_go ?X (OffloadedThread (offloadedStackSize (Build True Linux))) ?e
                (OnOp 0) sampleLedger
              = e_go ?X CallingThread ?e (OnOp 0) sampleLedger"
    by (simp add: scriptedFrame_def raisingRun_def)
  have started: "(\<lambda>_. True) (offloadedStackSize (Build True Linux))" by simp
  from relocated_run_equivalent [rule_format, OF started, THEN conjunct2, THEN conjunct1,
      rule_format, OF same]
    relocated_run_equivalent [rule_format, OF started, THEN conjunct2, THEN conjunct2,
      rule_format, OF r]
  show ?thesis by simp
qed

subsection \<open>The size of the offloaded stack\<close>

lemma offloadedStackSize_exact:
  assumes "c_offloadPoint b \<le> c_depthLimit"
  shows "unat (offloadedStackSize b) =
           (unat c_depthLimit - unat (c_offloadPoint b)) * unat (c_singleExecutionStackSize b)"
proof -
  have ne: "b \<noteq> Build True Win32"
    using assms by (auto simp: c_offloadPoint_values c_depthLimit_def)
  show ?thesis
  proof (cases b)
    case (Build nd pl)
    with ne show ?thesis
      by (cases nd; cases pl)
        (simp_all add: offloadedStackSize_def c_offloadPoint_values c_depthLimit_def
          c_singleExecutionStackSize_def)
  qed
qed

text \<open>
  In the Win32 release build the offload point lies above the depth limit: no depth
  within the limit relocates there, and the unsigned difference would wrap.
\<close>

lemma win32_release_offload_point_above_limit:
  "c_depthLimit < c_offloadPoint (Build True Win32)"
  "depth' \<le> c_depthLimit \<Longrightarrow>
     go (Build True Win32) h depth' X e onOp' s = e_go X CallingThread e onOp' s"
  by (auto simp: go_eq c_offloadPoint_values c_depthLimit_def)

text \<open>
  C9.  When \<^verbatim>\<open>go\<close> is reached at the offload point by a dispatcher within the depth
  limit and the thread is started, the run loop executes on a stack of exactly
  (depth limit - offload point) times the per-call stack size, computed without
  wrap-around.
\<close>

theorem offloaded_stack_covers_remaining_depth:
  "depth' \<le> c_depthLimit \<and> depth' = c_offloadPoint b \<and> h (offloadedStackSize b) \<longrightarrow>
     go b h depth' X e onOp' s = e_go X (OffloadedThread (offloadedStackSize b)) e onOp' s \<and>
     unat (c_offloadPoint b) \<le> unat c_depthLimit \<and>
     unat (offloadedStackSize b) =
       (unat c_depthLimit - unat (c_offloadPoint b)) * unat (c_singleExecutionStackSize b)"
proof (intro impI)
  assume a: "depth' \<le> c_depthLimit \<and> depth' = c_offloadPoint b \<and> h (offloadedStackSize b)"
  then have le: "c_offloadPoint b \<le> c_depthLimit" by auto
  then have "unat (c_offloadPoint b) \<le> unat c_depthLimit" by (simp add: word_le_nat_alt)
  with a offloadedStackSize_exact [OF le]
  show "go b h depth' X e onOp' s = e_go X (OffloadedThread (offloadedStackSize b)) e onOp' s \<and>
     unat (c_offloadPoint b) \<le> unat c_depthLimit \<and>
     unat (offloadedStackSize b) =
       (unat c_depthLimit - unat (c_offloadPoint b)) * unat (c_singleExecutionStackSize b)"
    by (simp add: go_eq)
qed

text \<open>
  The theorem at the Linux release build: the offload point 806 lies within the limit,
  and the stack is (1024 - 806) * 10240 = 2232320 bytes.
\<close>

theorem offloaded_stack_covers_remaining_depth_witness:
  "(806 :: unsigned) \<le> c_depthLimit \<and> 806 = c_offloadPoint (Build True Linux) \<and>
   unat (offloadedStackSize (Build True Linux)) = (1024 - 806) * 10240 \<and>
   go (Build True Linux) (\<lambda>_. True) 806 (scriptedFrame normalRun)
       (Executive_new (scriptedFrame normalRun) sampleLedger (EnvInfo 0) (SealEngine 0) 807)
       (OnOp 0) sampleLedger =
     e_go (scriptedFrame normalRun) (OffloadedThread 2232320)
       (Executive_new (scriptedFrame normalRun) sampleLedger (EnvInfo 0) (SealEngine 0) 807)
       (OnOp 0) sampleLedger"
proof -
  have a: "(806 :: unsigned) \<le> c_depthLimit \<and> 806 = c_offloadPoint (Build True Linux) \<and>
      (\<lambda>_. True) (offloadedStackSize (Build True Linux))"
    by (simp add: c_depthLimit_def c_offloadPoint_values)
  have sz: "offloadedStackSize (Build True Linux) = 2232320"
    by (simp add: budget_defs)
  from offloaded_stack_covers_remaining_depth [rule_format, OF a] a sz
  show ?thesis
    by (simp add: c_depthLimit_def c_singleExecutionStackSize_def)
qed

subsection \<open>Faults\<close>





subsection \<open>The child's depth and the depth that decides placement\<close>

lemma succ_neq_self: "(d :: unsigned) + 1 \<noteq> d"
  by simp

text \<open>
  C10.  The frame that \<^verbatim>\<open>ExtVM::call\<close> and \<^verbatim>\<open>ExtVM::create\<close> begin is the one constructed
  at \<open>depth + 1\<close>; when it has to be run, the dispatcher's result is that of \<^verbatim>\<open>go\<close>
  called with the dispatcher's own \<open>depth\<close>.  So a dispatcher at the offload point runs
  its child, constructed one above the offload point, on the new thread's stack, and a
  dispatcher whose child is constructed at the offload point runs it on the caller's
  stack.
\<close>

theorem child_depth_and_placement:
  "(e_call X (Executive_new X (m_s ext) (envInfo ext) (m_sealEngine ext) (depth ext + 1))
        p (gasPrice ext) (origin ext) (m_s ext) = Inr (False, e1, s1) \<longrightarrow>
      ExtVM_call b h X ext p =
        (case go b h (depth ext) X e1 (onOp p) s1 of
           Inl x \<Rightarrow> Inl x
         | Inr (e2, s2) \<Rightarrow>
             Inr (\<not> e_excepted X e2,
                  ext\<lparr>m_s := s2, sub := e_accrueSubState X e2 (sub ext)\<rparr>,
                  p\<lparr>gas := e_gas X e2\<rparr>, e2)) \<and>
      (depth ext = c_offloadPoint b \<and> h (offloadedStackSize b) \<longrightarrow>
         go b h (depth ext) X e1 (onOp p) s1
           = e_go X (OffloadedThread (offloadedStackSize b)) e1 (onOp p) s1) \<and>
      (depth ext + 1 = c_offloadPoint b \<longrightarrow>
         go b h (depth ext) X e1 (onOp p) s1 = e_go X CallingThread e1 (onOp p) s1)) \<and>
   (e_create X (Executive_new X (noteSending (myAddress ext) (m_s ext)) (envInfo ext)
          (m_sealEngine ext) (depth ext + 1))
        (myAddress ext) endowment (gasPrice ext) io_gas code (origin ext)
        (noteSending (myAddress ext) (m_s ext)) = Inr (False, c1, t1) \<longrightarrow>
      ExtVM_create b h X ext endowment io_gas code onOp' =
        (case go b h (depth ext) X c1 onOp' t1 of
           Inl x \<Rightarrow> Inl x
         | Inr (e2, s2) \<Rightarrow>
             Inr (e_newAddress X e2,
                  ext\<lparr>m_s := s2, sub := e_accrueSubState X e2 (sub ext)\<rparr>,
                  e_gas X e2, e2)) \<and>
      (depth ext = c_offloadPoint b \<and> h (offloadedStackSize b) \<longrightarrow>
         go b h (depth ext) X c1 onOp' t1
           = e_go X (OffloadedThread (offloadedStackSize b)) c1 onOp' t1) \<and>
      (depth ext + 1 = c_offloadPoint b \<longrightarrow>
         go b h (depth ext) X c1 onOp' t1 = e_go X CallingThread c1 onOp' t1))"
proof (intro conjI impI)
  assume "beginCall X ext p = Inr (False, e1, s1)"
  then show "ExtVM_call b h X ext p =
        (case go b h (depth ext) X e1 (onOp p) s1 of
           Inl x \<Rightarrow> Inl x
         | Inr (e2, s2) \<Rightarrow>
             Inr (\<not> e_excepted X e2,
                  ext\<lparr>m_s := s2, sub := e_accrueSubState X e2 (sub ext)\<rparr>,
                  p\<lparr>gas := e_gas X e2\<rparr>, e2))"
    by (rule ExtVM_call_run)
next
  assume "beginCreate X ext (noteSending (myAddress ext) (m_s ext)) endowment io_gas code
      = Inr (False, c1, t1)"
  then show "ExtVM_create b h X ext endowment io_gas code onOp' =
        (case go b h (depth ext) X c1 onOp' t1 of
           Inl x \<Rightarrow> Inl x
         | Inr (e2, s2) \<Rightarrow>
             Inr (e_newAddress X e2,
                  ext\<lparr>m_s := s2, sub := e_accrueSubState X e2 (sub ext)\<rparr>,
                  e_gas X e2, e2))"
    by (rule ExtVM_create_run)
next
  assume "depth ext = c_offloadPoint b \<and> h (offloadedStackSize b)"
  then show "go b h (depth ext) X e1 (onOp p) s1
           = e_go X (OffloadedThread (offloadedStackSize b)) e1 (onOp p) s1"
    by (simp add: go_eq)
next
  assume "depth ext = c_offloadPoint b \<and> h (offloadedStackSize b)"
  then show "go b h (depth ext) X c1 onOp' t1
           = e_go X (OffloadedThread (offloadedStackSize b)) c1 onOp' t1"
    by (simp add: go_eq)
next
  assume "depth ext + 1 = c_offloadPoint b"
  then have "depth ext \<noteq> c_offloadPoint b"
    using succ_neq_self [of "depth ext"] by auto
  then show "go b h (depth ext) X e1 (onOp p) s1 = e_go X CallingThread e1 (onOp p) s1"
    by (simp add: go_eq)
next
  assume "depth ext + 1 = c_offloadPoint b"
  then have "depth ext \<noteq> c_offloadPoint b"
    using succ_neq_self [of "depth ext"] by auto
  then show "go b h (depth ext) X c1 onOp' t1 = e_go X CallingThread c1 onOp' t1"
    by (simp add: go_eq)
qed

text \<open>
  What the spec's frame records, for every script: the frame a dispatcher returns was
  constructed at \<open>depth + 1\<close>, and if it was run, it ran on the new thread's stack
  exactly when the dispatcher's own depth is the offload point.
\<close>

lemma scripted_call_frame:
  assumes "ExtVM_call b h (scriptedFrame sc) ext p = Inr (ok, ext', p', e')"
  shows "f_depth e' = depth ext + 1"
    and "f_ranOn e' = Some (OffloadedThread z) \<longleftrightarrow>
           z = offloadedStackSize b \<and> depth ext = c_offloadPoint b \<and> needsRun sc \<and>
           \<not> c_depthLimit < depth ext + 1"
  using assms
  by (auto simp: ExtVM_call_def go_eq scriptedFrame_def Let_def
      split: if_splits option.splits sum.splits)

text \<open>
  The theorem at the Linux release build.  The dispatcher at depth 806, the offload
  point, runs its child of depth 807 on the new thread's stack; the dispatcher at depth
  805 runs its child of depth 806 on the caller's stack.
\<close>

theorem child_depth_and_placement_witness:
  "(case ExtVM_call (Build True Linux) (\<lambda>_. True) (scriptedFrame normalRun) (sampleExtVM 806)
          sampleParams of
      Inl x \<Rightarrow> False
    | Inr (ok, ext', p', e') \<Rightarrow>
        f_depth e' = 807 \<and> f_ranOn e' = Some (OffloadedThread 2232320)) \<and>
   (case ExtVM_call (Build True Linux) (\<lambda>_. True) (scriptedFrame normalRun) (sampleExtVM 805)
          sampleParams of
      Inl x \<Rightarrow> False
    | Inr (ok, ext', p', e') \<Rightarrow>
        f_depth e' = 806 \<and> f_ranOn e' = Some CallingThread) \<and>
   depth (sampleExtVM 806) = c_offloadPoint (Build True Linux) \<and>
   depth (sampleExtVM 805) + 1 = c_offloadPoint (Build True Linux)"
proof -
  let ?X = "scriptedFrame normalRun :: (Frame, nat) Executive"
  let ?e = "\<lambda>d. \<lparr>f_depth = d, f_gas = 0x8fc, f_excepted = False, f_sub = emptySubState,
                  f_newAddress = 0, f_revertTo = sampleLedger, f_ranOn = None\<rparr>"
  let ?s = "transferBalance sampleSender sampleReceiver 0x6f05b59d3b20000 sampleLedger"
  have b806: "e_call ?X (Executive_new ?X (m_s (sampleExtVM 806)) (envInfo (sampleExtVM 806))
                 (m_sealEngine (sampleExtVM 806)) (depth (sampleExtVM 806) + 1))
               sampleParams (gasPrice (sampleExtVM 806)) (origin (sampleExtVM 806))
               (m_s (sampleExtVM 806)) = Inr (False, ?e 807, ?s)"
    by (simp add: scriptedFrame_def normalRun_def sampleExtVM_def sampleParams_def
        c_depthLimit_def)
  have b805: "e_call ?X (Executive_new ?X (m_s (sampleExtVM 805)) (envInfo (sampleExtVM 805))
                 (m_sealEngine (sampleExtVM 805)) (depth (sampleExtVM 805) + 1))
               sampleParams (gasPrice (sampleExtVM 805)) (origin (sampleExtVM 805))
               (m_s (sampleExtVM 805)) = Inr (False, ?e 806, ?s)"
    by (simp add: scriptedFrame_def normalRun_def sampleExtVM_def sampleParams_def
        c_depthLimit_def)
  have d806: "depth (sampleExtVM 806) = c_offloadPoint (Build True Linux) \<and>
      (\<lambda>_. True) (offloadedStackSize (Build True Linux))"
    by (simp add: sampleExtVM_def c_offloadPoint_values)
  have d805: "depth (sampleExtVM 805) + 1 = c_offloadPoint (Build True Linux)"
    by (simp add: sampleExtVM_def c_offloadPoint_values)
  from child_depth_and_placement [THEN conjunct1, rule_format, OF b806,
      THEN conjunct2, THEN conjunct1, rule_format, OF d806]
  have "go (Build True Linux) (\<lambda>_. True) (depth (sampleExtVM 806)) ?X (?e 807)
          (onOp sampleParams) ?s
        = e_go ?X (OffloadedThread (offloadedStackSize (Build True Linux))) (?e 807)
            (onOp sampleParams) ?s" .
  moreover
  from child_depth_and_placement [THEN conjunct1, rule_format, OF b805,
      THEN conjunct2, THEN conjunct2, rule_format, OF d805]
  have "go (Build True Linux) (\<lambda>_. True) (depth (sampleExtVM 805)) ?X (?e 806)
          (onOp sampleParams) ?s
        = e_go ?X CallingThread (?e 806) (onOp sampleParams) ?s" .
  ultimately show ?thesis
    using d806 d805
    by (simp add: sample_call_offloaded sample_call_below_offload)
qed

end
